theory Spec2Isabelle
  imports Complex_Main
begin

section \<open>Conventions\<close>

text \<open>
  The development embeds the monitoring core of the repository: \<^verbatim>\<open>types.ts\<close>,
  \<^verbatim>\<open>collectors/RequestTracker.ts\<close>, \<^verbatim>\<open>probes/BuiltInProbes.ts\<close> and
  \<^verbatim>\<open>MonitoringService.ts\<close>.

  \<^item> A JavaScript \<^verbatim>\<open>number\<close> that counts (a counter, a length, a millisecond time
    stamp of \<^verbatim>\<open>Date.now()\<close>) is an \<^typ>\<open>int\<close>; a number that measures (a percentage,
    a threshold, a rate) is a \<^typ>\<open>real\<close>. Both are exact: the rounding of IEEE doubles
    and their special values are outside the model.
  \<^item> An optional field is an \<^typ>\<open>'a option\<close>, \<^verbatim>\<open>undefined\<close> being \<^term>\<open>None\<close>.
  \<^item> Every \<^verbatim>\<open>Date.now()\<close>, every reading of the operating system and the random
    suffix of a request token are arguments of the function that reads them.
  \<^item> A mutating method takes the object's state and returns the new state.
  \<^item> A \<^verbatim>\<open>throw\<close> is the left summand of a sum type. A promise is given by its
    settlement, a rejection being the left summand; a call that returns a promise can
    also throw before it returns one.
  \<^item> A \<^verbatim>\<open>Map\<close> is an association list in insertion order with distinct keys.
  \<^item> Several object types of the source share field names. Selectors are written with
    the name of their record where the short name would be ambiguous.
\<close>

section \<open>Strings and numbers of the runtime\<close>

text \<open>Decimal rendering of an integer, as a template literal renders an integral number.\<close>

fun show_nat :: "nat \<Rightarrow> string" where
  "show_nat n =
     (if n < 10 then [char_of (48 + n)]
      else show_nat (n div 10) @ [char_of (48 + n mod 10)])"

declare show_nat.simps [simp del]

definition show_int :: "int \<Rightarrow> string" where
  "show_int i = (if i < 0 then CHR ''-'' # show_nat (nat (- i)) else show_nat (nat i))"

text \<open>
  A renderer for integral readings, used where a concrete renderer is needed. The
  probes take the renderer of numbers in template literals as their first argument.
\<close>

definition integral_str :: "real \<Rightarrow> string" where
  "integral_str x = show_int \<lfloor>x\<rfloor>"

text \<open>\<^verbatim>\<open>Math.round\<close>: the nearest integer, a tie going up.\<close>

definition Math_round :: "real \<Rightarrow> int" where
  "Math_round x = \<lfloor>x + 1 / 2\<rfloor>"

text \<open>
  A string is the list of the bytes of its UTF-8 encoding. The white space and the line
  terminators of the language are the code points 9 to 13 and 32 (one byte each), U+00A0
  (two bytes), and U+1680, U+2000 to U+200A, U+2028, U+2029, U+202F, U+205F, U+3000 and
  U+FEFF (three bytes each). \<open>whiteSpaceLength\<close> is the number of bytes of such a
  character at the head of a string, and 0 when the string starts with none.
\<close>

definition whiteSpaceLength :: "string \<Rightarrow> nat" where
  "whiteSpaceLength s =
     (let b = (map of_char (take 3 s) :: nat list) in
      if take 1 b \<in> set [[9], [10], [11], [12], [13], [32]] then 1
      else if take 2 b = [194, 160] then 2
      else if b \<in> set ([[225, 154, 128], [226, 128, 168], [226, 128, 169], [226, 128, 175],
                          [226, 129, 159], [227, 128, 128], [239, 187, 191]]
                         @ map (\<lambda>k. [226, 128, k]) [128..<139]) then 3
      else 0)"

function trimStart :: "string \<Rightarrow> string" where
  "trimStart s =
     (if whiteSpaceLength s = 0 then s else trimStart (drop (whiteSpaceLength s) s))"
  by pat_completeness auto
termination
proof (relation "measure length")
  show "wf (measure length)" by simp
next
  fix s :: string
  assume "whiteSpaceLength s \<noteq> 0"
  then have "s \<noteq> []" by (auto simp: whiteSpaceLength_def)
  with \<open>whiteSpaceLength s \<noteq> 0\<close>
  show "(drop (whiteSpaceLength s) s, s) \<in> measure length" by simp
qed

declare trimStart.simps [simp del]

text \<open>
  \<^verbatim>\<open>parseInt(string)\<close> with no radix: leading white space is skipped, a sign is read, a
  prefix \<^verbatim>\<open>0x\<close> selects radix 16, and the longest run of digits of the radix is the
  value. \<^term>\<open>None\<close> is \<^verbatim>\<open>NaN\<close>.
\<close>

definition digitValue :: "char \<Rightarrow> nat option" where
  "digitValue c =
     (let n = (of_char c :: nat) in
      if 48 \<le> n \<and> n \<le> 57 then Some (n - 48)
      else if 97 \<le> n \<and> n \<le> 122 then Some (n - 87)
      else if 65 \<le> n \<and> n \<le> 90 then Some (n - 55)
      else None)"

definition isRadixDigit :: "nat \<Rightarrow> char \<Rightarrow> bool" where
  "isRadixDigit R c = (case digitValue c of None \<Rightarrow> False | Some d \<Rightarrow> d < R)"

definition radixValue :: "nat \<Rightarrow> string \<Rightarrow> nat" where
  "radixValue R Z = foldl (\<lambda>acc c. acc * R + (case digitValue c of None \<Rightarrow> 0 | Some d \<Rightarrow> d)) 0 Z"

definition parseInt :: "string \<Rightarrow> int option" where
  "parseInt inputString =
     (let S = trimStart inputString;
          sign = (if S \<noteq> [] \<and> hd S = CHR ''-'' then - 1 else 1 :: int);
          S1 = (if S \<noteq> [] \<and> (hd S = CHR ''+'' \<or> hd S = CHR ''-'') then tl S else S);
          hex = (take 2 S1 = ''0x'' \<or> take 2 S1 = ''0X'');
          R = (if hex then 16 else 10);
          S2 = (if hex then drop 2 S1 else S1);
          Z = takeWhile (isRadixDigit R) S2
      in if Z = [] then None else Some (sign * int (radixValue R Z)))"

text \<open>\<^verbatim>\<open>String(v)\<close> of a query parameter that is absent or a string.\<close>

definition ToString :: "string option \<Rightarrow> string" where
  "ToString q = (case q of None \<Rightarrow> ''undefined'' | Some s \<Rightarrow> s)"

text \<open>
  \<^verbatim>\<open>Array.prototype.slice(start)\<close>: a negative start counts from the end, and the start
  is clamped to the array.
\<close>

definition Array_slice :: "int \<Rightarrow> 'a list \<Rightarrow> 'a list" where
  "Array_slice start xs =
     (let len = int (length xs);
          k = (if start < 0 then max (len + start) 0 else min start len)
      in drop (nat k) xs)"

text \<open>\<^verbatim>\<open>push\<close> followed by the guarded \<^verbatim>\<open>shift\<close> that bounds a window at 100 entries.\<close>

definition push_bounded :: "'a \<Rightarrow> 'a list \<Rightarrow> 'a list" where
  "push_bounded x xs = (let ys = xs @ [x] in if length ys > 100 then tl ys else ys)"

text \<open>\<^verbatim>\<open>Map.prototype.set\<close>: an existing key keeps its place, a new key goes last.\<close>

fun Map_set :: "'k \<Rightarrow> 'v \<Rightarrow> ('k \<times> 'v) list \<Rightarrow> ('k \<times> 'v) list" where
  "Map_set k v [] = [(k, v)]"
| "Map_set k v (e # m) = (if fst e = k then (k, v) # m else e # Map_set k v m)"

text \<open>\<^verbatim>\<open>Object.values\<close> of the object built from a map's entries.\<close>

definition Object_values :: "('k \<times> 'v) list \<Rightarrow> 'v list" where
  "Object_values m = map snd m"

section \<open>Data model (types.ts)\<close>

datatype Status = Healthy | Warning | Critical

datatype MetaValue = MString string | MBool bool

record ProbeResult =
  status :: Status
  message :: "string option"
  value_num :: "real option"
  metadata :: "(string \<times> MetaValue) list option"

text \<open>
  What a check can throw or reject with: an instance of \<^verbatim>\<open>Error\<close> with its message,
  or any other value, given by its string rendering.
\<close>

datatype Thrown = ErrorObject string | OtherValue string

text \<open>
  A promise, by its settlement. An \<^verbatim>\<open>async\<close> function never throws to its caller: it
  returns a promise that settles as its body completes. \<^verbatim>\<open>await\<close> of a call gives the
  value the promise resolves with, and throws what the call threw or what the promise
  rejected with.
\<close>

type_synonym 'a Promise = "Thrown + 'a"

definition async :: "Thrown + 'a \<Rightarrow> Thrown + 'a Promise" where
  "async body = Inr body"

definition await_call :: "Thrown + 'a Promise \<Rightarrow> Thrown + 'a" where
  "await_call call = (case call of Inl e \<Rightarrow> Inl e | Inr promise \<Rightarrow> promise)"

record 'w CustomProbe =
  name :: string
  check :: "'w \<Rightarrow> Thrown + ProbeResult Promise"
  interval :: "int option"

record HeapMetrics =
  used :: real
  total :: real
  percentage :: real

record MemoryMetrics =
  used :: real
  total :: real
  percentage :: real
  heap :: HeapMetrics

record CpuMetrics =
  usage :: real
  loadAverage :: "real list"

record ProcessMetrics =
  pid :: int
  version :: string
  platform :: string
  arch :: string

record RequestStats =
  total :: int
  active :: int
  averageResponseTime :: int

record ErrorStats =
  total :: int
  rate :: real

record HealthMetrics =
  timestamp :: int
  uptime :: int
  memory :: MemoryMetrics
  cpu :: CpuMetrics
  process :: ProcessMetrics
  requests :: RequestStats
  errors :: ErrorStats

text \<open>
  What a probe's check and a collection read from the process and the operating system
  at one moment: the results of the three getters of \<^verbatim>\<open>SystemMetrics\<close>,
  \<^verbatim>\<open>process.uptime()\<close>, \<^verbatim>\<open>process.cwd()\<close> and \<^verbatim>\<open>fs.statSync\<close> of that directory.
  A custom probe may read more: its world extends this record.
\<close>

record World =
  getMemoryMetrics :: MemoryMetrics
  getCpuMetrics :: CpuMetrics
  getProcessMetrics :: ProcessMetrics
  process_uptime :: real
  process_cwd :: "Thrown + string"
  fs_statSync :: "string \<Rightarrow> Thrown + unit"

section \<open>RequestTracker\<close>

record RequestTracker =
  totalRequests :: int
  activeRequests :: int
  totalResponseTime :: int
  errors :: int
  requestTimes :: "int list"
  errorTimes :: "int list"

record TrackerMetrics =
  total :: int
  active :: int
  averageResponseTime :: int
  errors :: ErrorStats

definition new_RequestTracker :: RequestTracker where
  "new_RequestTracker =
     \<lparr>totalRequests = 0, activeRequests = 0, totalResponseTime = 0,
      RequestTracker.errors = 0, requestTimes = [], errorTimes = []\<rparr>"

text \<open>
  \<^verbatim>\<open>startRequest()\<close> at time \<open>now\<close>; \<open>rnd\<close> is
  \<^verbatim>\<open>Math.random().toString(36).substr(2, 9)\<close>.
\<close>

definition startRequest :: "int \<Rightarrow> string \<Rightarrow> RequestTracker \<Rightarrow> string \<times> RequestTracker" where
  "startRequest now rnd t =
     (''req_'' @ show_int now @ ''_'' @ rnd,
      t\<lparr>totalRequests := totalRequests t + 1, activeRequests := activeRequests t + 1\<rparr>)"

definition endRequest :: "string \<Rightarrow> int \<Rightarrow> int \<Rightarrow> RequestTracker \<Rightarrow> RequestTracker" where
  "endRequest requestId startTime now t =
     (let responseTime = now - startTime in
      t\<lparr>activeRequests := activeRequests t - 1,
        totalResponseTime := totalResponseTime t + responseTime,
        requestTimes := push_bounded responseTime (requestTimes t)\<rparr>)"

definition recordError :: "int \<Rightarrow> RequestTracker \<Rightarrow> RequestTracker" where
  "recordError now t =
     t\<lparr>RequestTracker.errors := RequestTracker.errors t + 1,
       errorTimes := push_bounded now (errorTimes t)\<rparr>"

definition getMetrics :: "int \<Rightarrow> RequestTracker \<Rightarrow> TrackerMetrics" where
  "getMetrics now t =
     (let fiveMinutesAgo = now - 5 * 60 * 1000;
          recentErrors = filter (\<lambda>time. time > fiveMinutesAgo) (errorTimes t)
      in \<lparr>TrackerMetrics.total = totalRequests t,
          TrackerMetrics.active = activeRequests t,
          TrackerMetrics.averageResponseTime =
            (if length (requestTimes t) > 0
             then Math_round (real_of_int (foldl (+) 0 (requestTimes t)) / real (length (requestTimes t)))
             else 0),
          TrackerMetrics.errors =
            \<lparr>ErrorStats.total = RequestTracker.errors t,
             rate = real (length recentErrors) / 5\<rparr>\<rparr>)"

text \<open>A call of the tracker with the values it reads, and a run of calls.\<close>

datatype TrackerCall = StartRequest int string | EndRequest string int int

fun apply_call :: "RequestTracker \<Rightarrow> TrackerCall \<Rightarrow> RequestTracker" where
  "apply_call t (StartRequest now rnd) = snd (startRequest now rnd t)"
| "apply_call t (EndRequest requestId startTime now) = endRequest requestId startTime now t"

definition run_calls :: "TrackerCall list \<Rightarrow> RequestTracker \<Rightarrow> RequestTracker" where
  "run_calls cs t = foldl apply_call t cs"

fun is_start :: "TrackerCall \<Rightarrow> bool" where
  "is_start (StartRequest now rnd) = True"
| "is_start (EndRequest requestId startTime now) = False"

definition starts :: "TrackerCall list \<Rightarrow> nat" where
  "starts cs = length (filter is_start cs)"

definition ends :: "TrackerCall list \<Rightarrow> nat" where
  "ends cs = length (filter (\<lambda>c. \<not> is_start c) cs)"

section \<open>BuiltInProbes\<close>

text \<open>
  The first argument of a probe factory renders a number inside a template literal; the
  second is the optional threshold, whose default is 80.
\<close>

definition createMemoryProbe :: "(real \<Rightarrow> string) \<Rightarrow> real option \<Rightarrow> ('a World_scheme) CustomProbe" where
  "createMemoryProbe num_str thr =
     (let threshold = (case thr of None \<Rightarrow> 80 | Some t \<Rightarrow> t) in
      \<lparr>name = ''memory_usage'',
       check = (\<lambda>w. async (
         let metrics = getMemoryMetrics w;
             usage = MemoryMetrics.percentage metrics
         in if usage > threshold then
              Inr \<lparr>status = Critical,
                   message = Some (''Memory usage is '' @ num_str usage @ ''% (threshold: ''
                                   @ num_str threshold @ ''%)''),
                   value_num = Some usage, metadata = None\<rparr>
            else if usage > threshold * 0.8 then
              Inr \<lparr>status = Warning,
                   message = Some (''Memory usage is '' @ num_str usage @ ''% (approaching threshold)''),
                   value_num = Some usage, metadata = None\<rparr>
            else
              Inr \<lparr>status = Healthy,
                   message = Some (''Memory usage is '' @ num_str usage @ ''%''),
                   value_num = Some usage, metadata = None\<rparr>)),
       interval = None\<rparr>)"

definition createCpuProbe :: "(real \<Rightarrow> string) \<Rightarrow> real option \<Rightarrow> ('a World_scheme) CustomProbe" where
  "createCpuProbe num_str thr =
     (let threshold = (case thr of None \<Rightarrow> 80 | Some t \<Rightarrow> t) in
      \<lparr>name = ''cpu_usage'',
       check = (\<lambda>w. async (
         let metrics = getCpuMetrics w;
             usage = CpuMetrics.usage metrics
         in if usage > threshold then
              Inr \<lparr>status = Critical,
                   message = Some (''CPU usage is '' @ num_str usage @ ''% (threshold: ''
                                   @ num_str threshold @ ''%)''),
                   value_num = Some usage, metadata = None\<rparr>
            else if usage > threshold * 0.8 then
              Inr \<lparr>status = Warning,
                   message = Some (''CPU usage is '' @ num_str usage @ ''% (approaching threshold)''),
                   value_num = Some usage, metadata = None\<rparr>
            else
              Inr \<lparr>status = Healthy,
                   message = Some (''CPU usage is '' @ num_str usage @ ''%''),
                   value_num = Some usage, metadata = None\<rparr>)),
       interval = None\<rparr>)"

text \<open>The remainder operator \<^verbatim>\<open>%\<close>, whose quotient is truncated towards zero.\<close>

definition js_rem :: "real \<Rightarrow> real \<Rightarrow> real" where
  "js_rem x y = x - y * of_int (if x / y < 0 then \<lceil>x / y\<rceil> else \<lfloor>x / y\<rfloor>)"

definition createUptimeProbe :: "(real \<Rightarrow> string) \<Rightarrow> ('a World_scheme) CustomProbe" where
  "createUptimeProbe num_str =
     \<lparr>name = ''uptime'',
      check = (\<lambda>w. async (
        let uptime = process_uptime w;
            hours = \<lfloor>uptime / 3600\<rfloor>;
            minutes = \<lfloor>js_rem uptime 3600 / 60\<rfloor>
        in Inr \<lparr>status = Healthy,
                message = Some (''Application has been running for '' @ num_str (of_int hours)
                                @ ''h '' @ num_str (of_int minutes) @ ''m''),
                value_num = Some uptime, metadata = None\<rparr>)),
      interval = None\<rparr>"

definition error_message_or_unknown :: "Thrown \<Rightarrow> string" where
  "error_message_or_unknown error =
     (case error of ErrorObject m \<Rightarrow> m | OtherValue v \<Rightarrow> ''Unknown error'')"

definition createDiskSpaceProbe :: "('a World_scheme) CustomProbe" where
  "createDiskSpaceProbe =
     \<lparr>name = ''disk_space'',
      check = (\<lambda>w. async (
        case (case process_cwd w of Inl e \<Rightarrow> Inl e | Inr dir \<Rightarrow>
                (case fs_statSync w dir of Inl e \<Rightarrow> Inl e | Inr stats \<Rightarrow> Inr dir)) of
          Inr dir \<Rightarrow>
            Inr \<lparr>status = Healthy, message = Some ''Disk space check completed'',
                 value_num = None,
                 metadata = Some [(''path'', MString dir), (''accessible'', MBool True)]\<rparr>
        | Inl error \<Rightarrow>
            Inr \<lparr>status = Critical, message = Some ''Cannot access disk space'',
                 value_num = None,
                 metadata = Some [(''error'', MString (error_message_or_unknown error))]\<rparr>)),
      interval = None\<rparr>"

section \<open>MonitoringService\<close>

record 'w MonitoringService =
  customProbes :: "'w CustomProbe list"
  probeResults :: "(string \<times> ProbeResult) list"
  metricsHistory :: "HealthMetrics list"
  startTime :: int
  requestTracker :: RequestTracker

text \<open>
  \<^verbatim>\<open>collectMetrics\<close> reads the clock three times: inside \<^verbatim>\<open>getMetrics\<close>, for the
  time stamp and for the uptime.
\<close>

definition collectMetrics ::
  "'a World_scheme \<Rightarrow> int \<Rightarrow> int \<Rightarrow> int \<Rightarrow> 'w MonitoringService \<Rightarrow> HealthMetrics" where
  "collectMetrics w now1 now2 now3 svc =
     (let memory = getMemoryMetrics w;
          cpu = getCpuMetrics w;
          process = getProcessMetrics w;
          requestMetrics = getMetrics now1 (requestTracker svc)
      in \<lparr>timestamp = now2,
          uptime = (now3 - startTime svc) div 1000,
          memory = memory,
          cpu = cpu,
          process = process,
          requests =
            \<lparr>RequestStats.total = TrackerMetrics.total requestMetrics,
             RequestStats.active = TrackerMetrics.active requestMetrics,
             RequestStats.averageResponseTime = TrackerMetrics.averageResponseTime requestMetrics\<rparr>,
          HealthMetrics.errors = TrackerMetrics.errors requestMetrics\<rparr>)"

text \<open>The callback of the collection timer, which exists when collection is enabled.\<close>

definition metricsCollectionTick ::
  "'a World_scheme \<Rightarrow> int \<Rightarrow> int \<Rightarrow> int \<Rightarrow> 'w MonitoringService \<Rightarrow> 'w MonitoringService" where
  "metricsCollectionTick w now1 now2 now3 svc =
     (let metrics = collectMetrics w now1 now2 now3 svc in
      svc\<lparr>metricsHistory := push_bounded metrics (metricsHistory svc)\<rparr>)"

text \<open>A tick with what it reads, and a run of ticks.\<close>

type_synonym 'a Tick = "'a World_scheme \<times> int \<times> int \<times> int"

fun apply_tick :: "'w MonitoringService \<Rightarrow> 'a Tick \<Rightarrow> 'w MonitoringService" where
  "apply_tick svc (w, now1, now2, now3) = metricsCollectionTick w now1 now2 now3 svc"

fun snapshot_of :: "'w MonitoringService \<Rightarrow> 'a Tick \<Rightarrow> HealthMetrics" where
  "snapshot_of svc (w, now1, now2, now3) = collectMetrics w now1 now2 now3 svc"

definition run_ticks :: "'a Tick list \<Rightarrow> 'w MonitoringService \<Rightarrow> 'w MonitoringService" where
  "run_ticks ticks svc = foldl apply_tick svc ticks"

text \<open>
  \<^verbatim>\<open>executeProbe\<close>, the body shared by \<^verbatim>\<open>startProbeExecution\<close> and \<^verbatim>\<open>addProbe\<close>:
  one execution of a probe whose check completes in world \<open>w\<close>, on the service as it is
  at that completion. The result is the settlement of the promise it returns.
\<close>

definition try_catch :: "('e + 'a) \<Rightarrow> ('e \<Rightarrow> 'f + 'a) \<Rightarrow> 'f + 'a" where
  "try_catch body handler = (case body of Inr v \<Rightarrow> Inr v | Inl e \<Rightarrow> handler e)"

definition executeProbe ::
  "'w CustomProbe \<Rightarrow> 'w \<Rightarrow> 'w MonitoringService \<Rightarrow> Thrown + 'w MonitoringService" where
  "executeProbe probe w svc =
     try_catch
       (case await_call (check probe w) of
          Inl e \<Rightarrow> Inl e
        | Inr result \<Rightarrow> Inr (svc\<lparr>probeResults := Map_set (name probe) result (probeResults svc)\<rparr>))
       (\<lambda>error.
          Inr (svc\<lparr>probeResults :=
                 Map_set (name probe)
                   \<lparr>status = Critical,
                    message = Some (''Probe execution failed: '' @ error_message_or_unknown error),
                    value_num = None, metadata = None\<rparr>
                   (probeResults svc)\<rparr>))"

text \<open>
  \<^verbatim>\<open>addProbe\<close> with the first execution it starts; the timer it sets runs
  \<^verbatim>\<open>executeProbe\<close> again at every interval.
\<close>

definition addProbe ::
  "'w CustomProbe \<Rightarrow> 'w \<Rightarrow> 'w MonitoringService \<Rightarrow> Thrown + 'w MonitoringService" where
  "addProbe probe w svc = executeProbe probe w (svc\<lparr>customProbes := customProbes svc @ [probe]\<rparr>)"

text \<open>
  What a call \<^verbatim>\<open>executeProbe()\<close> has done when it returns to its caller, in world
  \<open>w\<close>: the check has been called; when it threw, the \<^verbatim>\<open>catch\<close> block has stored
  the failure; when it returned a promise, the execution waits for it and nothing is
  stored yet.
\<close>

definition executeProbe_begin ::
  "'w CustomProbe \<Rightarrow> 'w \<Rightarrow> 'w MonitoringService \<Rightarrow> 'w MonitoringService" where
  "executeProbe_begin probe w svc =
     (case check probe w of
        Inr promise \<Rightarrow> svc
      | Inl error \<Rightarrow>
          svc\<lparr>probeResults :=
                Map_set (name probe)
                  \<lparr>ProbeResult.status = Critical,
                   message = Some (''Probe execution failed: '' @ error_message_or_unknown error),
                   value_num = None, metadata = None\<rparr>
                  (probeResults svc)\<rparr>)"

text \<open>
  \<^verbatim>\<open>startProbeExecution\<close>, up to its return: every registered probe, in the order of
  registration, has its first execution begun. The executions that wait, and those the
  timers start later, are runs of \<^const>\<open>executeProbe\<close> on the service as it is when
  their checks complete.
\<close>

definition startProbeExecution :: "'w \<Rightarrow> 'w MonitoringService \<Rightarrow> 'w MonitoringService" where
  "startProbeExecution w svc =
     foldl (\<lambda>s probe. executeProbe_begin probe w s) svc (customProbes svc)"

text \<open>
  The constructor, with the two thresholds and the custom probes of the configuration,
  the tracker instance, the world and the time of construction. When it returns, the
  table holds the failures of the checks that threw when called; every other first
  execution stores its result later, when its check completes.
\<close>

definition new_MonitoringService ::
  "(real \<Rightarrow> string) \<Rightarrow> real option \<Rightarrow> real option \<Rightarrow> ('a World_scheme) CustomProbe list
     \<Rightarrow> RequestTracker \<Rightarrow> 'a World_scheme \<Rightarrow> int \<Rightarrow> ('a World_scheme) MonitoringService" where
  "new_MonitoringService num_str memoryUsage cpuUsage configProbes tracker w now =
     startProbeExecution w
       \<lparr>customProbes =
          [createMemoryProbe num_str memoryUsage, createCpuProbe num_str cpuUsage,
           createUptimeProbe num_str, createDiskSpaceProbe] @ configProbes,
        probeResults = [],
        metricsHistory = [],
        startTime = now,
        requestTracker = tracker\<rparr>"

definition getOverallStatus :: "(string \<times> ProbeResult) list \<Rightarrow> Status" where
  "getOverallStatus probes =
     (let statuses = map status (Object_values probes) in
      if List.member statuses Critical then Critical
      else if List.member statuses Warning then Warning
      else Healthy)"

record HealthBody =
  status :: Status
  timestamp :: int
  uptime :: int
  metrics :: HealthMetrics
  probes :: "(string \<times> ProbeResult) list"
  version :: string

record HealthResponse =
  statusCode :: int
  body :: HealthBody

text \<open>The handler of the health route; \<open>npm_package_version\<close> is the environment variable.\<close>

definition healthCheckHandler ::
  "'a World_scheme \<Rightarrow> int \<Rightarrow> int \<Rightarrow> int \<Rightarrow> string option \<Rightarrow> 'w MonitoringService \<Rightarrow> HealthResponse" where
  "healthCheckHandler w now1 now2 now3 npm_package_version svc =
     (let metrics = collectMetrics w now1 now2 now3 svc;
          probes = probeResults svc;
          overallStatus = getOverallStatus probes
      in \<lparr>statusCode = (if overallStatus = Healthy then 200 else 503),
          body =
            \<lparr>HealthBody.status = overallStatus,
             HealthBody.timestamp = HealthMetrics.timestamp metrics,
             HealthBody.uptime = HealthMetrics.uptime metrics,
             HealthBody.metrics = metrics,
             probes = probes,
             HealthBody.version =
               (case npm_package_version of
                  None \<Rightarrow> ''1.0.0''
                | Some v \<Rightarrow> if v = [] then ''1.0.0'' else v)\<rparr>\<rparr>)"

record HistoryBody =
  metrics :: "HealthMetrics list"
  count :: int
  latest :: "HealthMetrics option"

text \<open>
  The handler of the history route, for the query parameter \<^verbatim>\<open>limit\<close>. The operator
  \<^verbatim>\<open>||\<close> replaces \<^verbatim>\<open>NaN\<close> and zero by 50.
\<close>

definition history_limit :: "string option \<Rightarrow> int" where
  "history_limit q =
     (case parseInt (ToString q) of None \<Rightarrow> 50 | Some n \<Rightarrow> if n = 0 then 50 else n)"

definition metricsHistoryHandler :: "string option \<Rightarrow> 'w MonitoringService \<Rightarrow> HistoryBody" where
  "metricsHistoryHandler q svc =
     (let limit = history_limit q;
          metrics = Array_slice (- limit) (metricsHistory svc)
      in \<lparr>HistoryBody.metrics = metrics,
          count = int (length metrics),
          latest = (if metrics = [] then None else Some (last metrics))\<rparr>)"

section \<open>Sample values\<close>

text \<open>Concrete readings and a fresh service, for the closed instances below.\<close>

definition sample_world :: "real \<Rightarrow> real \<Rightarrow> World" where
  "sample_world mem_percentage cpu_usage =
     \<lparr>getMemoryMetrics =
        \<lparr>MemoryMetrics.used = 4096, MemoryMetrics.total = 8192,
         MemoryMetrics.percentage = mem_percentage,
         heap = \<lparr>HeapMetrics.used = 40, HeapMetrics.total = 80, HeapMetrics.percentage = 50\<rparr>\<rparr>,
      getCpuMetrics = \<lparr>usage = cpu_usage, loadAverage = [0, 0, 0]\<rparr>,
      getProcessMetrics = \<lparr>pid = 1, ProcessMetrics.version = ''v18'', platform = ''linux'', arch = ''x64''\<rparr>,
      process_uptime = 0,
      process_cwd = Inr ''/'',
      fs_statSync = (\<lambda>dir. Inr ())\<rparr>"

definition sample_service :: "World MonitoringService" where
  "sample_service =
     new_MonitoringService integral_str None None [] new_RequestTracker (sample_world 50 10) 0"

definition sample_tick :: "int \<Rightarrow> unit Tick" where
  "sample_tick n = (sample_world 50 10, n, n, n)"

text \<open>A probe whose check is an \<^verbatim>\<open>async\<close> function that throws, and one whose check throws when called.\<close>

definition failing_probe :: "Thrown \<Rightarrow> World CustomProbe" where
  "failing_probe c = \<lparr>name = ''db'', check = (\<lambda>w. async (Inl c)), interval = None\<rparr>"

definition throwing_probe :: "Thrown \<Rightarrow> World CustomProbe" where
  "throwing_probe c = \<lparr>name = ''db'', check = (\<lambda>w. Inl c), interval = None\<rparr>"

definition sample_result :: "Status \<Rightarrow> ProbeResult" where
  "sample_result s = \<lparr>ProbeResult.status = s, message = None, value_num = None, metadata = None\<rparr>"

section \<open>Reading results\<close>

text \<open>The status and the value of the result a check resolves with.\<close>

definition result_status :: "Thrown + ProbeResult Promise \<Rightarrow> Status option" where
  "result_status r = (case await_call r of Inl e \<Rightarrow> None | Inr p \<Rightarrow> Some (ProbeResult.status p))"

definition result_value :: "Thrown + ProbeResult Promise \<Rightarrow> real option" where
  "result_value r = (case await_call r of Inl e \<Rightarrow> None | Inr p \<Rightarrow> value_num p)"

text \<open>The result stored under a name once an execution has settled.\<close>

definition stored_result :: "Thrown + 'w MonitoringService \<Rightarrow> string \<Rightarrow> ProbeResult option" where
  "stored_result r n = (case r of Inl e \<Rightarrow> None | Inr svc \<Rightarrow> map_of (probeResults svc) n)"

text \<open>The arithmetic mean of a latency window.\<close>

definition mean :: "int list \<Rightarrow> real" where
  "mean xs = real_of_int (sum_list xs) / real (length xs)"

text \<open>The threshold a probe factory works with: its argument, or the default 80.\<close>

definition effective_threshold :: "real option \<Rightarrow> real" where
  "effective_threshold thr = (case thr of None \<Rightarrow> 80 | Some t \<Rightarrow> t)"

text \<open>A service whose history holds three snapshots.\<close>

definition history3 :: "World MonitoringService" where
  "history3 = run_ticks [sample_tick 1, sample_tick 2, sample_tick 3] sample_service"

text \<open>A tracker that has served two requests, of 1 and 2 milliseconds.\<close>

definition two_requests :: RequestTracker where
  "two_requests =
     run_calls [StartRequest 0 ''k3j9x0a1b'', EndRequest ''req_0_k3j9x0a1b'' 0 1,
                StartRequest 10 ''z8y7x6w5v'', EndRequest ''req_10_z8y7x6w5v'' 10 12]
       new_RequestTracker"


section \<open>Construction\<close>

lemma executeProbe_begin_frame:
  "metricsHistory (executeProbe_begin probe w svc) = metricsHistory svc"
  "startTime (executeProbe_begin probe w svc) = startTime svc"
  "requestTracker (executeProbe_begin probe w svc) = requestTracker svc"
  "customProbes (executeProbe_begin probe w svc) = customProbes svc"
  by (simp_all add: executeProbe_begin_def split: sum.split)

lemma begin_all_frame:
  "metricsHistory (foldl (\<lambda>s probe. executeProbe_begin probe w s) svc ps) = metricsHistory svc"
  "startTime (foldl (\<lambda>s probe. executeProbe_begin probe w s) svc ps) = startTime svc"
  "requestTracker (foldl (\<lambda>s probe. executeProbe_begin probe w s) svc ps) = requestTracker svc"
  "customProbes (foldl (\<lambda>s probe. executeProbe_begin probe w s) svc ps) = customProbes svc"
  by (induction ps arbitrary: svc) (simp_all add: executeProbe_begin_frame)

lemma begin_all_results:
  "\<forall>p \<in> set ps. \<forall>e. check p w \<noteq> Inl e \<Longrightarrow>
     probeResults (foldl (\<lambda>s probe. executeProbe_begin probe w s) svc ps) = probeResults svc"
proof (induction ps arbitrary: svc)
  case Nil
  show ?case by simp
next
  case (Cons p ps)
  from Cons.prems obtain promise where "check p w = Inr promise"
    by (cases "check p w") auto
  then have "executeProbe_begin p w svc = svc"
    by (simp add: executeProbe_begin_def)
  with Cons show ?case by simp
qed

lemma builtin_checks_return:
  "check (createMemoryProbe num_str thr) w \<noteq> Inl e"
  "check (createCpuProbe num_str thr) w \<noteq> Inl e"
  "check (createUptimeProbe num_str) w \<noteq> Inl e"
  "check createDiskSpaceProbe w \<noteq> Inl e"
  by (simp_all add: createMemoryProbe_def createCpuProbe_def createUptimeProbe_def
      createDiskSpaceProbe_def async_def Let_def)

lemma constructor_frame:
  "metricsHistory (new_MonitoringService num_str m c ps tr w now) = []"
  "startTime (new_MonitoringService num_str m c ps tr w now) = now"
  "requestTracker (new_MonitoringService num_str m c ps tr w now) = tr"
  by (simp_all add: new_MonitoringService_def startProbeExecution_def begin_all_frame
      executeProbe_begin_frame)

lemma constructor_results:
  "\<forall>p \<in> set ps. \<forall>e. check p w \<noteq> Inl e \<Longrightarrow>
     probeResults (new_MonitoringService num_str m c ps tr w now) = []"
  unfolding new_MonitoringService_def startProbeExecution_def
  by (subst begin_all_results) (auto simp: builtin_checks_return)

lemma sample_service_history: "metricsHistory sample_service = []"
  by (simp add: sample_service_def constructor_frame)

lemma sample_service_results: "probeResults sample_service = []"
  by (simp add: sample_service_def constructor_results)

text \<open>
  A configured probe whose check throws when it is called has its failure in the table
  when the constructor returns.
\<close>

lemma constructor_stores_thrown:
  "probeResults (new_MonitoringService integral_str None None [throwing_probe (ErrorObject ''down'')]
      new_RequestTracker (sample_world 50 10) 0)
     = [(''db'', \<lparr>ProbeResult.status = Critical,
                  message = Some ''Probe execution failed: down'',
                  value_num = None, metadata = None\<rparr>)]"
  by (simp add: new_MonitoringService_def startProbeExecution_def executeProbe_begin_def
      createMemoryProbe_def createCpuProbe_def createUptimeProbe_def createDiskSpaceProbe_def
      throwing_probe_def async_def error_message_or_unknown_def Let_def)

section \<open>Overall status\<close>

lemma member_status_iff:
  "List.member (map ProbeResult.status (Object_values tbl)) s
     \<longleftrightarrow> (\<exists>r \<in> snd ` set tbl. ProbeResult.status r = s)"
  by (auto simp: Object_values_def)

text \<open>
  C1. For every table of probe results, \<^const>\<open>getOverallStatus\<close> is critical when some
  result is critical, otherwise warning when some result is warning, otherwise healthy.
\<close>

theorem overall_status_dominance:
  "getOverallStatus tbl =
     (if (\<exists>r \<in> snd ` set tbl. ProbeResult.status r = Critical) then Critical
      else if (\<exists>r \<in> snd ` set tbl. ProbeResult.status r = Warning) then Warning
      else Healthy)"
  unfolding getOverallStatus_def Let_def member_status_iff by simp

theorem overall_status_dominance_witness:
  "getOverallStatus [(''a'', sample_result Warning), (''b'', sample_result Critical),
                     (''c'', sample_result Healthy)] = Critical
   \<and> getOverallStatus [(''a'', sample_result Healthy), (''b'', sample_result Warning),
                     (''c'', sample_result Healthy)] = Warning
   \<and> getOverallStatus [(''a'', sample_result Healthy), (''b'', sample_result Healthy),
                     (''c'', sample_result Healthy)] = Healthy"
  using overall_status_dominance [of "[(''a'', sample_result Warning), (''b'', sample_result Critical),
                     (''c'', sample_result Healthy)]"]
    overall_status_dominance [of "[(''a'', sample_result Healthy), (''b'', sample_result Warning),
                     (''c'', sample_result Healthy)]"]
    overall_status_dominance [of "[(''a'', sample_result Healthy), (''b'', sample_result Healthy),
                     (''c'', sample_result Healthy)]"]
  by (simp add: sample_result_def)

text \<open>
  C9. On the empty table \<^const>\<open>getOverallStatus\<close> is healthy. The table of a service
  just constructed is empty when no configured check throws as it is called, and on an
  empty table the health handler answers 200 with status healthy.
\<close>

theorem empty_table_healthy:
  "getOverallStatus [] = Healthy
   \<and> ((\<forall>p \<in> set ps. \<forall>e. check p w0 \<noteq> Inl e)
        \<longrightarrow> probeResults (new_MonitoringService num_str m c ps tr w0 now) = [])
   \<and> statusCode (healthCheckHandler w now1 now2 now3 v (svc\<lparr>probeResults := []\<rparr>)) = 200
   \<and> HealthBody.status (body (healthCheckHandler w now1 now2 now3 v (svc\<lparr>probeResults := []\<rparr>))) = Healthy"
  by (simp add: getOverallStatus_def healthCheckHandler_def constructor_results
      Object_values_def Let_def)

theorem empty_table_healthy_witness:
  "probeResults sample_service = []
   \<and> statusCode (healthCheckHandler (sample_world 50 10) 5 5 5 None sample_service) = 200
   \<and> HealthBody.status (body (healthCheckHandler (sample_world 50 10) 5 5 5 None sample_service)) = Healthy"
proof -
  note t = empty_table_healthy [where ps = "[]" and ?w0.0 = "sample_world 50 10"
      and num_str = integral_str and m = None and c = None and tr = new_RequestTracker
      and now = 0 and w = "sample_world 50 10" and ?now1.0 = 5 and ?now2.0 = 5 and ?now3.0 = 5
      and v = None and svc = sample_service]
  have e: "probeResults sample_service = []"
    using t by (simp add: sample_service_def)
  then have "sample_service\<lparr>probeResults := []\<rparr> = sample_service"
    by (cases sample_service) simp
  with t e show ?thesis by simp
qed

section \<open>The request tracker\<close>

lemma active_apply_call:
  "activeRequests (apply_call t c) = activeRequests t + (if is_start c then 1 else - 1)"
  by (cases c) (simp_all add: startRequest_def endRequest_def Let_def)

lemma active_run_calls:
  "activeRequests (run_calls cs t) = activeRequests t + int (starts cs) - int (ends cs)"
  unfolding run_calls_def starts_def ends_def
  by (induction cs arbitrary: t) (simp_all add: active_apply_call)

text \<open>
  C2, as the code has it. After any run of \<^verbatim>\<open>startRequest\<close> and \<^verbatim>\<open>endRequest\<close> calls
  on a fresh tracker the active counter is the number of starts minus the number of ends.
  It is non-negative at every point of a run in which no prefix has more ends than
  starts.
\<close>

theorem active_is_starts_minus_ends:
  "activeRequests (run_calls cs new_RequestTracker) = int (starts cs) - int (ends cs)
   \<and> ((\<forall>k \<le> length cs. ends (take k cs) \<le> starts (take k cs))
        \<longrightarrow> (\<forall>k \<le> length cs. 0 \<le> activeRequests (run_calls (take k cs) new_RequestTracker)))"
  by (simp add: active_run_calls new_RequestTracker_def)

theorem active_is_starts_minus_ends_witness:
  "activeRequests (run_calls [StartRequest 0 ''k3j9x0a1b'', EndRequest ''req_0_k3j9x0a1b'' 0 7]
      new_RequestTracker) = 0
   \<and> 0 \<le> activeRequests (run_calls (take 1 [StartRequest 0 ''k3j9x0a1b'', EndRequest ''req_0_k3j9x0a1b'' 0 7])
      new_RequestTracker)"
proof -
  let ?cs = "[StartRequest 0 ''k3j9x0a1b'', EndRequest ''req_0_k3j9x0a1b'' 0 7]"
  have pre: "\<forall>k \<le> length ?cs. ends (take k ?cs) \<le> starts (take k ?cs)"
  proof (intro allI impI)
    fix k assume "k \<le> length ?cs"
    then have "k = 0 \<or> k = 1 \<or> k = 2" by auto
    then show "ends (take k ?cs) \<le> starts (take k ?cs)"
      by (auto simp: ends_def starts_def)
  qed
  from active_is_starts_minus_ends [of ?cs] pre
  have a: "activeRequests (run_calls ?cs new_RequestTracker) = int (starts ?cs) - int (ends ?cs)"
    and b: "\<forall>k \<le> length ?cs. 0 \<le> activeRequests (run_calls (take k ?cs) new_RequestTracker)"
    by blast+
  from b have "0 \<le> activeRequests (run_calls (take 1 ?cs) new_RequestTracker)"
    by (rule allE [where x = 1]) simp
  with a show ?thesis by (simp add: starts_def ends_def)
qed

text \<open>
  The claim as stated fails: one \<^verbatim>\<open>endRequest\<close> on a fresh tracker leaves the active
  counter at minus one.
\<close>

theorem active_negative_counterexample:
  "activeRequests (run_calls [EndRequest ''req_0_k3j9x0a1b'' 0 7] new_RequestTracker) = - 1"
  by (simp add: run_calls_def endRequest_def new_RequestTracker_def Let_def)

text \<open>
  C10. The state after \<^verbatim>\<open>endRequest\<close> does not depend on the token: two calls that
  differ in the token only give the same state. The active counter goes down by one, and
  the elapsed time is appended to the latency window, whose oldest entry leaves when the
  window already holds 100.
\<close>

theorem endRequest_ignores_requestId:
  "endRequest requestId start now t = endRequest requestId' start now t
   \<and> activeRequests (endRequest requestId start now t) = activeRequests t - 1
   \<and> requestTimes (endRequest requestId start now t) =
       (if length (requestTimes t) \<ge> 100 then tl (requestTimes t) @ [now - start]
        else requestTimes t @ [now - start])"
  by (cases "requestTimes t") (simp_all add: endRequest_def push_bounded_def Let_def)

theorem endRequest_ignores_requestId_witness:
  "endRequest ''req_0_k3j9x0a1b'' 0 7 new_RequestTracker = endRequest ''never-issued'' 0 7 new_RequestTracker
   \<and> requestTimes (endRequest ''never-issued'' 0 7 new_RequestTracker) = [7]"
  using endRequest_ignores_requestId [of "''req_0_k3j9x0a1b''" 0 7 new_RequestTracker "''never-issued''"]
    endRequest_ignores_requestId [of "''never-issued''" 0 7 new_RequestTracker "''never-issued''"]
  by (simp add: new_RequestTracker_def)

section \<open>The history buffer\<close>

text \<open>
  One bounded push on the last 100 entries of a sequence gives the last 100 entries of
  the sequence extended by the pushed entry.
\<close>

lemma push_bounded_last_100:
  "push_bounded x (drop (length ys - 100) ys) = drop (length (ys @ [x]) - 100) (ys @ [x])"
proof (cases "length ys < 100")
  case True
  then show ?thesis by (simp add: push_bounded_def)
next
  case False
  define k where "k = length ys - 100"
  have len: "length (drop k ys) = 100" using False by (simp add: k_def)
  have "push_bounded x (drop k ys) = tl (drop k ys @ [x])"
    using len by (simp add: push_bounded_def Let_def)
  also have "\<dots> = tl (drop k (ys @ [x]))"
    by (simp add: k_def)
  also have "\<dots> = drop (Suc k) (ys @ [x])"
    by (simp only: drop_Suc tl_drop)
  also have "Suc k = length (ys @ [x]) - 100"
    using False by (simp add: k_def)
  finally show ?thesis by (simp only: k_def)
qed

lemma window_run:
  "length h \<le> 100 \<Longrightarrow>
     foldl (\<lambda>h x. push_bounded x h) h xs = drop (length (h @ xs) - 100) (h @ xs)"
proof (induction xs rule: rev_induct)
  case Nil
  then show ?case by simp
next
  case (snoc x xs)
  then have "foldl (\<lambda>h x. push_bounded x h) h (xs @ [x])
             = push_bounded x (drop (length (h @ xs) - 100) (h @ xs))"
    by simp
  also have "\<dots> = drop (length ((h @ xs) @ [x]) - 100) ((h @ xs) @ [x])"
    by (rule push_bounded_last_100)
  finally show ?case by simp
qed

lemma snapshot_of_apply_tick: "snapshot_of (apply_tick svc tk) tk' = snapshot_of svc tk'"
proof -
  obtain w n1 n2 n3 where tk: "tk = (w, n1, n2, n3)" by (cases tk) auto
  obtain w' m1 m2 m3 where tk': "tk' = (w', m1, m2, m3)" by (cases tk') auto
  show ?thesis
    by (simp add: tk tk' metricsCollectionTick_def collectMetrics_def Let_def)
qed

lemma history_apply_tick:
  "metricsHistory (apply_tick svc tk) = push_bounded (snapshot_of svc tk) (metricsHistory svc)"
  by (cases tk) (simp add: metricsCollectionTick_def Let_def)

lemma history_run_ticks:
  "metricsHistory (run_ticks ticks svc)
     = foldl (\<lambda>h x. push_bounded x h) (metricsHistory svc) (map (snapshot_of svc) ticks)"
  unfolding run_ticks_def
proof (induction ticks arbitrary: svc)
  case Nil
  show ?case by simp
next
  case (Cons tk ticks)
  show ?case
    by (simp add: Cons.IH snapshot_of_apply_tick history_apply_tick)
qed

text \<open>
  C3. From a service whose history holds at most 100 snapshots, as it does after
  construction, any run of collection ticks leaves at most 100 snapshots, and they are
  the last 100 of the old history followed by the snapshots of the run, in that order:
  the oldest entries have left first.
\<close>

theorem history_holds_last_100:
  "length (metricsHistory svc) \<le> 100 \<Longrightarrow>
     length (metricsHistory (run_ticks ticks svc)) \<le> 100
     \<and> metricsHistory (run_ticks ticks svc) =
         drop (length (metricsHistory svc @ map (snapshot_of svc) ticks) - 100)
           (metricsHistory svc @ map (snapshot_of svc) ticks)"
  by (simp add: history_run_ticks window_run)

lemma sample_timestamp:
  "HealthMetrics.timestamp (snapshot_of svc (sample_tick n)) = n"
  by (simp add: sample_tick_def collectMetrics_def Let_def)

theorem history_holds_last_100_witness:
  "length (metricsHistory (run_ticks (map (\<lambda>n. sample_tick (int n)) [1..<102]) sample_service)) = 100
   \<and> HealthMetrics.timestamp
        (hd (metricsHistory (run_ticks (map (\<lambda>n. sample_tick (int n)) [1..<102]) sample_service))) = 2
   \<and> HealthMetrics.timestamp
        (last (metricsHistory (run_ticks (map (\<lambda>n. sample_tick (int n)) [1..<102]) sample_service))) = 101"
proof -
  let ?f = "\<lambda>n. snapshot_of sample_service (sample_tick (int n))"
  let ?H = "metricsHistory (run_ticks (map (\<lambda>n. sample_tick (int n)) [1..<102]) sample_service)"
  have h: "length (metricsHistory sample_service) \<le> 100"
    by (simp add: sample_service_history)
  have e: "metricsHistory sample_service = []"
    by (rule sample_service_history)
  have m: "map (snapshot_of sample_service) (map (\<lambda>n. sample_tick (int n)) [1..<102]) = map ?f [1..<102]"
    by (simp only: map_map comp_def)
  have l: "length (map ?f [1..<102]) = 101"
    by simp
  from history_holds_last_100 [OF h, of "map (\<lambda>n. sample_tick (int n)) [1..<102]"]
  have H: "?H = drop 1 (map ?f [1..<102])"
    unfolding e append_Nil m l by simp
  have "length ?H = 100"
    unfolding H length_drop l by simp
  moreover have "hd ?H = ?f 2"
    unfolding H by (subst hd_drop_conv_nth) (simp_all only: l nth_map length_upt nth_upt, simp_all)
  moreover have "last ?H = ?f 101"
    unfolding H by (subst last_drop) (simp_all only: l last_map last_upt, simp_all del: upt_rec_numeral add: last_map)
  ultimately show ?thesis
    by (simp only: sample_timestamp) simp
qed

section \<open>Tracker metrics\<close>

lemma foldl_plus_sum_list: "foldl (+) a xs = a + sum_list (xs :: int list)"
  by (induction xs arbitrary: a) simp_all

lemma two_requests_times: "requestTimes two_requests = [1, 2]"
  by (simp add: two_requests_def run_calls_def startRequest_def endRequest_def push_bounded_def
      new_RequestTracker_def Let_def)

text \<open>
  C8, as the code has it. The average response time that \<^const>\<open>getMetrics\<close> returns is
  0 on an empty latency window; otherwise it is the arithmetic mean of the window rounded
  to the nearest integer, a tie going up, which is the one integer in the half-open
  interval from the mean minus one half to the mean plus one half. The error rate is the
  number of recorded error times less than five minutes before now, divided by 5.
\<close>

theorem getMetrics_average_and_rate:
  "(requestTimes t = [] \<longrightarrow> TrackerMetrics.averageResponseTime (getMetrics now t) = 0)
   \<and> (requestTimes t \<noteq> [] \<longrightarrow>
        TrackerMetrics.averageResponseTime (getMetrics now t) = \<lfloor>mean (requestTimes t) + 1 / 2\<rfloor>
        \<and> mean (requestTimes t) - 1 / 2 < real_of_int (TrackerMetrics.averageResponseTime (getMetrics now t))
        \<and> real_of_int (TrackerMetrics.averageResponseTime (getMetrics now t)) \<le> mean (requestTimes t) + 1 / 2)
   \<and> rate (TrackerMetrics.errors (getMetrics now t)) =
        real (card {i. i < length (errorTimes t) \<and> now - errorTimes t ! i < 5 * 60 * 1000}) / 5"
proof -
  have r: "length (filter (\<lambda>time. now - 5 * 60 * 1000 < time) (errorTimes t))
           = card {i. i < length (errorTimes t) \<and> now - errorTimes t ! i < 5 * 60 * 1000}"
    unfolding length_filter_conv_card by (rule arg_cong [where f = card]) auto
  show ?thesis
    using r by (simp add: getMetrics_def Let_def Math_round_def mean_def foldl_plus_sum_list) linarith
qed

theorem getMetrics_average_and_rate_witness:
  "TrackerMetrics.averageResponseTime (getMetrics 20 new_RequestTracker) = 0
   \<and> TrackerMetrics.averageResponseTime (getMetrics 20 two_requests) = 2
   \<and> rate (TrackerMetrics.errors (getMetrics 20 new_RequestTracker)) = 0
   \<and> rate (TrackerMetrics.errors
        (getMetrics 420000 (recordError 400000 (recordError 50000 two_requests)))) = 1 / 5"
proof -
  have e: "requestTimes new_RequestTracker = []" "errorTimes new_RequestTracker = []"
    by (simp_all add: new_RequestTracker_def)
  have m: "mean (requestTimes two_requests) = 3 / 2" "requestTimes two_requests \<noteq> []"
    by (simp_all add: two_requests_times mean_def)
  have x: "rate (TrackerMetrics.errors
        (getMetrics 420000 (recordError 400000 (recordError 50000 two_requests)))) = 1 / 5"
    by (simp add: getMetrics_def recordError_def push_bounded_def two_requests_def run_calls_def
        startRequest_def endRequest_def new_RequestTracker_def Let_def)
  from getMetrics_average_and_rate [of new_RequestTracker 20] getMetrics_average_and_rate [of two_requests 20]
  show ?thesis by (simp add: e m x)
qed

text \<open>
  The claim as stated fails: on the window of latencies 1 and 2, whose mean is 3/2, the
  average response time returned is 2.
\<close>

theorem average_is_rounded_counterexample:
  "requestTimes two_requests = [1, 2]
   \<and> mean (requestTimes two_requests) = 3 / 2
   \<and> TrackerMetrics.averageResponseTime (getMetrics 20 two_requests) = 2"
  by (simp add: two_requests_times mean_def getMetrics_def Math_round_def Let_def)


section \<open>Built-in probes\<close>

text \<open>
  C4, as the code has it. With threshold 80 the memory probe resolves, for every renderer
  of numbers, to status critical and value 85 on a reading of 85, and to status warning
  and value 65 on a reading of 65, which is above 0.8 times 80.
\<close>

theorem memory_probe_at_85_and_65:
  "(MemoryMetrics.percentage (getMemoryMetrics w) = 85 \<longrightarrow>
      result_status (check (createMemoryProbe num_str (Some 80)) w) = Some Critical
      \<and> result_value (check (createMemoryProbe num_str (Some 80)) w) = Some 85)
   \<and> (MemoryMetrics.percentage (getMemoryMetrics w) = 65 \<longrightarrow>
      result_status (check (createMemoryProbe num_str (Some 80)) w) = Some Warning
      \<and> result_value (check (createMemoryProbe num_str (Some 80)) w) = Some 65)"
  by (simp add: createMemoryProbe_def result_status_def result_value_def await_call_def async_def Let_def)

theorem memory_probe_at_85_and_65_witness:
  "result_status (check (createMemoryProbe integral_str (Some 80)) (sample_world 85 0)) = Some Critical
   \<and> result_value (check (createMemoryProbe integral_str (Some 80)) (sample_world 85 0)) = Some 85
   \<and> result_value (check (createMemoryProbe integral_str (Some 80)) (sample_world 65 0)) = Some 65"
  using memory_probe_at_85_and_65 [of "sample_world 85 0" integral_str]
    memory_probe_at_85_and_65 [of "sample_world 65 0" integral_str]
  by (simp add: sample_world_def)

text \<open>The claim as stated fails: on a reading of 65 the status is warning, not healthy.\<close>

theorem memory_probe_65_counterexample:
  "result_status (check (createMemoryProbe integral_str (Some 80)) (sample_world 65 0)) = Some Warning"
  by (simp add: createMemoryProbe_def result_status_def await_call_def async_def sample_world_def Let_def)

text \<open>
  C5, as the code has it. For the memory probe and the CPU probe with threshold \<open>t\<close>
  (the argument, or 80 by default) and for every reading: the status is critical exactly
  when the reading is greater than \<open>t\<close>, warning exactly when it is not greater than
  \<open>t\<close> and greater than 0.8 times \<open>t\<close>, and healthy exactly when it is greater than
  neither. So a reading equal to \<open>t\<close> gives warning when \<open>t\<close> is positive and healthy
  otherwise, and a reading equal to 0.8 times \<open>t\<close> gives healthy when \<open>t\<close> is not
  negative and critical otherwise.
\<close>

theorem threshold_boundaries:
  "(MemoryMetrics.percentage (getMemoryMetrics w) = effective_threshold thr \<longrightarrow>
      result_status (check (createMemoryProbe num_str thr) w)
        = Some (if 0 < effective_threshold thr then Warning else Healthy))
   \<and> (CpuMetrics.usage (getCpuMetrics w) = effective_threshold thr \<longrightarrow>
      result_status (check (createCpuProbe num_str thr) w)
        = Some (if 0 < effective_threshold thr then Warning else Healthy))
   \<and> (MemoryMetrics.percentage (getMemoryMetrics w) = 0.8 * effective_threshold thr \<longrightarrow>
      result_status (check (createMemoryProbe num_str thr) w)
        = Some (if 0 \<le> effective_threshold thr then Healthy else Critical))
   \<and> (CpuMetrics.usage (getCpuMetrics w) = 0.8 * effective_threshold thr \<longrightarrow>
      result_status (check (createCpuProbe num_str thr) w)
        = Some (if 0 \<le> effective_threshold thr then Healthy else Critical))
   \<and> (result_status (check (createMemoryProbe num_str thr) w) = Some Critical
        \<longleftrightarrow> MemoryMetrics.percentage (getMemoryMetrics w) > effective_threshold thr)
   \<and> (result_status (check (createMemoryProbe num_str thr) w) = Some Warning
        \<longleftrightarrow> \<not> MemoryMetrics.percentage (getMemoryMetrics w) > effective_threshold thr
            \<and> MemoryMetrics.percentage (getMemoryMetrics w) > 0.8 * effective_threshold thr)
   \<and> (result_status (check (createMemoryProbe num_str thr) w) = Some Healthy
        \<longleftrightarrow> \<not> MemoryMetrics.percentage (getMemoryMetrics w) > effective_threshold thr
            \<and> \<not> MemoryMetrics.percentage (getMemoryMetrics w) > 0.8 * effective_threshold thr)
   \<and> (result_status (check (createCpuProbe num_str thr) w) = Some Critical
        \<longleftrightarrow> CpuMetrics.usage (getCpuMetrics w) > effective_threshold thr)
   \<and> (result_status (check (createCpuProbe num_str thr) w) = Some Warning
        \<longleftrightarrow> \<not> CpuMetrics.usage (getCpuMetrics w) > effective_threshold thr
            \<and> CpuMetrics.usage (getCpuMetrics w) > 0.8 * effective_threshold thr)
   \<and> (result_status (check (createCpuProbe num_str thr) w) = Some Healthy
        \<longleftrightarrow> \<not> CpuMetrics.usage (getCpuMetrics w) > effective_threshold thr
            \<and> \<not> CpuMetrics.usage (getCpuMetrics w) > 0.8 * effective_threshold thr)"
  by (cases thr)
    (simp_all add: createMemoryProbe_def createCpuProbe_def result_status_def await_call_def
      async_def Let_def effective_threshold_def)

theorem threshold_boundaries_witness:
  "result_status (check (createMemoryProbe integral_str (Some 80)) (sample_world 80 80)) = Some Warning
   \<and> result_status (check (createCpuProbe integral_str (Some 80)) (sample_world 80 80)) = Some Warning
   \<and> result_status (check (createMemoryProbe integral_str None) (sample_world 64 64)) = Some Healthy
   \<and> result_status (check (createCpuProbe integral_str None) (sample_world 64 64)) = Some Healthy
   \<and> result_status (check (createMemoryProbe integral_str (Some 80)) (sample_world 81 5)) = Some Critical
   \<and> result_status (check (createCpuProbe integral_str (Some 80)) (sample_world 81 5)) \<noteq> Some Critical"
  using threshold_boundaries [of "sample_world 80 80" "Some 80" integral_str]
    threshold_boundaries [of "sample_world 64 64" None integral_str]
    threshold_boundaries [of "sample_world 81 5" "Some 80" integral_str]
  by (simp add: sample_world_def effective_threshold_def)

text \<open>
  The claim as stated fails at threshold 0: a reading equal to the threshold gives
  healthy, not warning.
\<close>

theorem threshold_zero_counterexample:
  "result_status (check (createMemoryProbe integral_str (Some 0)) (sample_world 0 0)) = Some Healthy
   \<and> result_status (check (createCpuProbe integral_str (Some 0)) (sample_world 0 0)) = Some Healthy"
  by (simp add: createMemoryProbe_def createCpuProbe_def result_status_def await_call_def async_def
      sample_world_def Let_def)

section \<open>Probe execution\<close>

lemma map_of_Map_set: "map_of (Map_set k v m) = (map_of m)(k \<mapsto> v)"
  by (induction m) (auto simp: fun_eq_iff)

lemma executeProbe_settles: "\<exists>svc'. executeProbe probe w svc = Inr svc'"
  by (cases "await_call (check probe w)") (simp_all add: executeProbe_def try_catch_def)

text \<open>
  An execution whose check throws as it is called is complete when the call returns.
\<close>

lemma executeProbe_thrown:
  "check probe w = Inl e \<Longrightarrow> executeProbe probe w svc = Inr (executeProbe_begin probe w svc)"
  by (simp add: executeProbe_def executeProbe_begin_def try_catch_def await_call_def)

text \<open>
  C7, as the code has it. When the check of a probe throws or rejects with cause \<open>c\<close>,
  the execution settles without an error, and so does \<^const>\<open>addProbe\<close>; the entries of
  the table under every other name are as before; and under the probe's name stands a
  result with status critical whose message is \<^verbatim>\<open>Probe execution failed: \<close> followed by
  the message of \<open>c\<close> when \<open>c\<close> is an \<^verbatim>\<open>Error\<close>, and by \<^verbatim>\<open>Unknown error\<close> when it is
  any other value.
\<close>

theorem failing_probe_stores_critical:
  "check probe w = Inl c \<or> check probe w = Inr (Inl c) \<Longrightarrow>
     (\<exists>svc'. executeProbe probe w svc = Inr svc'
        \<and> customProbes svc' = customProbes svc
        \<and> (\<forall>n. n \<noteq> name probe \<longrightarrow> map_of (probeResults svc') n = map_of (probeResults svc) n))
     \<and> (\<exists>svc'. addProbe probe w svc = Inr svc'
        \<and> (\<forall>n. n \<noteq> name probe \<longrightarrow> map_of (probeResults svc') n = map_of (probeResults svc) n))
     \<and> stored_result (addProbe probe w svc) (name probe)
         = stored_result (executeProbe probe w svc) (name probe)
     \<and> stored_result (executeProbe probe w svc) (name probe) =
         Some \<lparr>ProbeResult.status = Critical,
               message = Some (''Probe execution failed: ''
                  @ (case c of ErrorObject m \<Rightarrow> m | OtherValue v \<Rightarrow> ''Unknown error'')),
               value_num = None, metadata = None\<rparr>"
  by (auto simp: executeProbe_def addProbe_def try_catch_def stored_result_def map_of_Map_set
      error_message_or_unknown_def await_call_def)

theorem failing_probe_stores_critical_witness:
  "stored_result (executeProbe (failing_probe (ErrorObject ''connection refused'')) (sample_world 0 0)
       (sample_service\<lparr>probeResults := [(''uptime'', sample_result Healthy)]\<rparr>)) ''db''
     = Some \<lparr>ProbeResult.status = Critical,
             message = Some ''Probe execution failed: connection refused'',
             value_num = None, metadata = None\<rparr>
   \<and> stored_result (executeProbe (failing_probe (ErrorObject ''connection refused'')) (sample_world 0 0)
       (sample_service\<lparr>probeResults := [(''uptime'', sample_result Healthy)]\<rparr>)) ''uptime''
     = Some (sample_result Healthy)
   \<and> stored_result (executeProbe (throwing_probe (ErrorObject ''not a function'')) (sample_world 0 0)
       sample_service) ''db''
     = Some \<lparr>ProbeResult.status = Critical,
             message = Some ''Probe execution failed: not a function'',
             value_num = None, metadata = None\<rparr>"
proof -
  let ?p = "failing_probe (ErrorObject ''connection refused'')"
  let ?q = "throwing_probe (ErrorObject ''not a function'')"
  let ?s = "sample_service\<lparr>probeResults := [(''uptime'', sample_result Healthy)]\<rparr>"
  have c: "check ?p (sample_world 0 0) = Inl (ErrorObject ''connection refused'')
           \<or> check ?p (sample_world 0 0) = Inr (Inl (ErrorObject ''connection refused''))"
    by (simp add: failing_probe_def async_def)
  have d: "check ?q (sample_world 0 0) = Inl (ErrorObject ''not a function'')
           \<or> check ?q (sample_world 0 0) = Inr (Inl (ErrorObject ''not a function''))"
    by (simp add: throwing_probe_def)
  have n: "name ?p = ''db''" "name ?q = ''db''"
    by (simp_all add: failing_probe_def throwing_probe_def)
  from failing_probe_stores_critical [OF c, of ?s]
  obtain svc' where e: "executeProbe ?p (sample_world 0 0) ?s = Inr svc'"
    and o: "\<forall>n. n \<noteq> name ?p \<longrightarrow> map_of (probeResults svc') n = map_of (probeResults ?s) n"
    and s: "stored_result (executeProbe ?p (sample_world 0 0) ?s) (name ?p) =
         Some \<lparr>ProbeResult.status = Critical,
               message = Some ''Probe execution failed: connection refused'',
               value_num = None, metadata = None\<rparr>"
    by auto
  from o have "map_of (probeResults svc') ''uptime'' = map_of (probeResults ?s) ''uptime''"
    by (rule allE [where x = "''uptime''"]) (simp add: n)
  then have u: "stored_result (executeProbe ?p (sample_world 0 0) ?s) ''uptime'' = Some (sample_result Healthy)"
    by (simp add: e stored_result_def)
  from failing_probe_stores_critical [OF d, of sample_service]
  have t: "stored_result (executeProbe ?q (sample_world 0 0) sample_service) (name ?q) =
         Some \<lparr>ProbeResult.status = Critical,
               message = Some ''Probe execution failed: not a function'',
               value_num = None, metadata = None\<rparr>"
    by simp
  from s u t show ?thesis by (simp add: n)
qed

text \<open>
  The claim as stated fails when the cause is not an \<^verbatim>\<open>Error\<close>: a check that rejects
  with the string \<^verbatim>\<open>boom\<close> stores a message that does not name the cause.
\<close>

theorem failing_probe_non_error_counterexample:
  "stored_result (executeProbe (failing_probe (OtherValue ''boom'')) (sample_world 0 0) sample_service) ''db''
     = Some \<lparr>ProbeResult.status = Critical,
             message = Some ''Probe execution failed: Unknown error'',
             value_num = None, metadata = None\<rparr>"
  by (simp add: executeProbe_def try_catch_def stored_result_def failing_probe_def
      error_message_or_unknown_def await_call_def async_def sample_service_results)

section \<open>The history route\<close>

lemma slice_last: "0 < n \<Longrightarrow> Array_slice (- n) xs = drop (length xs - nat n) xs"
proof -
  assume n: "0 < n"
  have "nat (max (int (length xs) + - n) 0) = length xs - nat n"
    using n by (simp add: max_def) linarith
  with n show ?thesis by (simp add: Array_slice_def Let_def)
qed

lemma history3_length: "length (metricsHistory history3) = 3"
  by (simp add: history3_def run_ticks_def sample_tick_def metricsCollectionTick_def push_bounded_def
      sample_service_history Let_def)

text \<open>
  White space before the number is skipped, also where it is not ASCII: a no-break space,
  and a byte order mark followed by a tab.
\<close>

lemma parseInt_skips_white_space:
  "parseInt [CHR 0xC2, CHR 0xA0, CHR ''1''] = Some 1"
  "parseInt ([CHR 0xEF, CHR 0xBB, CHR 0xBF, CHR 0x09] @ ''-0x1f'') = Some (- 31)"
  by code_simp+

text \<open>
  A limit that \<^const>\<open>parseInt\<close> reads as \<^verbatim>\<open>NaN\<close> or as zero is replaced by 50: the
  handler returns the last 50 snapshots of the history, or all of them when there are
  fewer.
\<close>

lemma history_limit_default:
  "parseInt (ToString q) = None \<or> parseInt (ToString q) = Some 0 \<Longrightarrow>
     metricsHistoryHandler q svc =
       \<lparr>HistoryBody.metrics = drop (length (metricsHistory svc) - 50) (metricsHistory svc),
        count = int (min 50 (length (metricsHistory svc))),
        latest = (if metricsHistory svc = [] then None else Some (last (metricsHistory svc)))\<rparr>"
  by (auto simp: metricsHistoryHandler_def history_limit_def Let_def slice_last min_def)

lemma history_limit_default_example:
  "count (metricsHistoryHandler (Some ''abc'') history3) = 3
   \<and> count (metricsHistoryHandler (Some ''0'') history3) = 3
   \<and> count (metricsHistoryHandler None history3) = 3"
proof -
  have a: "parseInt (ToString (Some ''abc'')) = None \<or> parseInt (ToString (Some ''abc'')) = Some 0"
    by code_simp
  have b: "parseInt (ToString (Some ''0'')) = None \<or> parseInt (ToString (Some ''0'')) = Some 0"
    by code_simp
  have c: "parseInt (ToString None) = None \<or> parseInt (ToString None) = Some 0"
    by code_simp
  show ?thesis
    using history_limit_default [OF a, of history3] history_limit_default [OF b, of history3]
      history_limit_default [OF c, of history3]
    by (simp add: history3_length)
qed

text \<open>
  A negative limit is kept: the handler passes its opposite to \<^verbatim>\<open>slice\<close>, which
  drops that many of the oldest snapshots and returns the rest.
\<close>

lemma history_limit_negative:
  "parseInt (ToString q) = Some n \<Longrightarrow> n < 0 \<Longrightarrow>
     HistoryBody.metrics (metricsHistoryHandler q svc) = drop (nat (- n)) (metricsHistory svc)"
proof -
  assume p: "parseInt (ToString q) = Some n" and n: "n < 0"
  have "drop (nat (min (- n) (int (length (metricsHistory svc))))) (metricsHistory svc)
        = drop (nat (- n)) (metricsHistory svc)"
    by (cases "- n \<le> int (length (metricsHistory svc))") (simp_all add: min_def)
  with p n show ?thesis
    by (simp add: metricsHistoryHandler_def history_limit_def Array_slice_def Let_def)
qed

text \<open>
  C6 at a negative limit. The query \<^verbatim>\<open>limit=-5\<close> is read as minus five, which the
  operator \<^verbatim>\<open>||\<close> keeps; \<^verbatim>\<open>slice(5)\<close> of a history of three snapshots is empty, so
  the handler answers with no snapshot, count 0 and no latest entry, where the default of
  50 gives all three, as it does for the query \<^verbatim>\<open>limit=abc\<close>.
\<close>

theorem negative_limit_not_defaulted:
  "parseInt (ToString (Some ''-5'')) = Some (- 5)
   \<and> length (metricsHistory history3) = 3
   \<and> HistoryBody.metrics (metricsHistoryHandler (Some ''-5'') history3) = []
   \<and> count (metricsHistoryHandler (Some ''-5'') history3) = 0
   \<and> latest (metricsHistoryHandler (Some ''-5'') history3) = None
   \<and> count (metricsHistoryHandler (Some ''abc'') history3) = 3"
proof -
  have p: "parseInt (ToString (Some ''-5'')) = Some (- 5)"
    by code_simp
  have q: "parseInt (ToString (Some ''abc'')) = None"
    by code_simp
  show ?thesis
    by (simp add: p q metricsHistoryHandler_def history_limit_def Array_slice_def Let_def history3_length)
qed

end
